theory Spec2Isabelle
  imports Main
begin

section \<open>Sinks: the \<open>io.Writer\<close> values the package handles\<close>

text \<open>
  A destination is something outside the package that receives bytes: the two standard
  streams of the process, or any other writer a caller hands in (a log file, a buffer),
  identified by its address.
\<close>

datatype dest = Stdout | Stderr | Sink nat

text \<open>
  The \<open>io.Writer\<close> values that occur: a destination, \<open>ioutil.Discard\<close>, and the
  fan-out writer that \<open>io.MultiWriter\<close> returns. A nil writer is \<open>None\<close> of
  \<open>writer option\<close>.
\<close>

datatype writer = To dest | Discard | Multi "writer list"

text \<open>
  \<open>io.MultiWriter(w...)\<close> copies its arguments into a fresh fan-out writer, splicing in
  the members of any argument that is itself a fan-out writer. The result is never nil,
  also for no arguments.
\<close>

fun members :: "writer \<Rightarrow> writer list" where
  "members (Multi ws) = ws"
| "members w = [w]"

definition MultiWriter :: "writer list \<Rightarrow> writer" where
  "MultiWriter ws = Multi (concat (map members ws))"

section \<open>Panics and errors\<close>

text \<open>
  \<open>LevelOutOfRange\<close> is \<open>panic("Log level out of range. Use the constants dumdum.")\<close>;
  \<open>LogFileCreationFailed m\<close> and \<open>LoggerInitFailed m\<close> are the panics of the two
  \<open>Must\<close> functions, \<open>m\<close> the text of the error they report;
  \<open>IndexOutOfRange i n\<close> is the run-time panic of indexing an array or slice of length
  \<open>n\<close> at \<open>i\<close>; \<open>NilDereference\<close> is the run-time panic of a method call on a nil
  interface value or of a nil pointer.
\<close>

datatype panic =
    LevelOutOfRange
  | LogFileCreationFailed string
  | LoggerInitFailed string
  | IndexOutOfRange int nat
  | NilDereference

section \<open>config.go\<close>

type_synonym logLevel = int

definition Info :: logLevel where "Info = 0"
definition Warn :: logLevel where "Warn = 1"
definition Err :: logLevel where "Err = 2"

lemmas level_defs = Info_def Warn_def Err_def

text \<open>A Go array \<open>[3]T\<close>: three values, indexed by an integer; any other index panics.\<close>

datatype 'a array3 = Array3 'a 'a 'a

fun index3 :: "'a array3 \<Rightarrow> int \<Rightarrow> panic + 'a" where
  "index3 (Array3 a b c) i =
     (if i = 0 then Inr a else if i = 1 then Inr b else if i = 2 then Inr c
      else Inl (IndexOutOfRange i 3))"

fun assign3 :: "'a array3 \<Rightarrow> int \<Rightarrow> 'a \<Rightarrow> panic + 'a array3" where
  "assign3 (Array3 a b c) i v =
     (if i = 0 then Inr (Array3 v b c) else if i = 1 then Inr (Array3 a v c)
      else if i = 2 then Inr (Array3 a b v)
      else Inl (IndexOutOfRange i 3))"

text \<open>A slice read \<open>xs[i]\<close>.\<close>

definition index_slice :: "'a list \<Rightarrow> int \<Rightarrow> panic + 'a" where
  "index_slice xs i =
     (if 0 \<le> i \<and> i < int (length xs) then Inr (xs ! nat i)
      else Inl (IndexOutOfRange i (length xs)))"

record LoggerConfig =
  Disabled :: "bool array3"
  Writers :: "writer option array3"

text \<open>The zero value \<open>LoggerConfig{}\<close>.\<close>

definition zeroConfig :: LoggerConfig where
  "zeroConfig = \<lparr>Disabled = Array3 False False False, Writers = Array3 None None None\<rparr>"

text \<open>
  \<open>Disable\<close> and \<open>Writer\<close> have a pointer receiver and update the config in place. The
  model returns the panic, if any, and the config as the call leaves it. In
  \<open>lc.Writers[l] = io.MultiWriter(w...)\<close> the right-hand side is evaluated before the
  indexed store.
\<close>

definition Disable :: "LoggerConfig \<Rightarrow> logLevel \<Rightarrow> panic option \<times> LoggerConfig" where
  "Disable lc l =
     (if l < 0 \<or> l > 3 then (Some LevelOutOfRange, lc)
      else case assign3 (Disabled lc) l True of
             Inl p \<Rightarrow> (Some p, lc)
           | Inr d \<Rightarrow> (None, lc\<lparr>Disabled := d\<rparr>))"

definition Writer :: "LoggerConfig \<Rightarrow> logLevel \<Rightarrow> writer list \<Rightarrow> panic option \<times> LoggerConfig" where
  "Writer lc l w =
     (if l < 0 \<or> l > 3 then (Some LevelOutOfRange, lc)
      else case assign3 (Writers lc) l (Some (MultiWriter w)) of
             Inl p \<Rightarrow> (Some p, lc)
           | Inr ws \<Rightarrow> (None, lc\<lparr>Writers := ws\<rparr>))"

definition defaultWriters :: "writer list" where
  "defaultWriters = [To Stdout, To Stdout, To Stderr]"

definition GetWriter :: "LoggerConfig \<Rightarrow> logLevel \<Rightarrow> panic + writer" where
  "GetWriter lc l =
     (if l < 0 \<or> l > 3 then Inr (To Stdout)
      else case index3 (Disabled lc) l of
             Inl p \<Rightarrow> Inl p
           | Inr dis \<Rightarrow>
               (if dis then Inr Discard
                else (case index3 (Writers lc) l of
                        Inl p \<Rightarrow> Inl p
                      | Inr None \<Rightarrow> index_slice defaultWriters l
                      | Inr (Some w) \<Rightarrow> Inr w)))"

section \<open>Writing to a sink\<close>

text \<open>
  The state of the process. \<open>trace\<close> lists every chunk a destination has received,
  oldest first; \<open>broken\<close> lists the destinations whose \<open>Write\<close> returns an error (and
  records nothing). The next three fields are the ID service: \<open>logIDService\<close> tells
  whether the channel variable of that name holds a channel served by the generator
  goroutine, \<open>idsource k\<close> is the \<open>k\<close>-th token the generator produces, \<open>issued\<close> counts
  the tokens received so far. The last four are the package-level variables of the
  variant of logger.go that keeps its sinks in globals; a nil writer is \<open>None\<close>.
\<close>

record world =
  trace :: "(dest \<times> string) list"
  broken :: "dest list"
  logIDService :: bool
  idsource :: "nat \<Rightarrow> string"
  issued :: nat
  infoLog :: "writer option"
  warnLog :: "writer option"
  errorLog :: "writer option"
  loggerInitted :: bool

text \<open>
  \<open>Write\<close> returns whether the writer reported no error. The fan-out writer writes to
  its members in order and stops at the first error; \<open>ioutil.Discard\<close> succeeds and does
  nothing.
\<close>

fun Write :: "writer \<Rightarrow> string \<Rightarrow> world \<Rightarrow> bool \<times> world"
  and WriteEach :: "writer list \<Rightarrow> string \<Rightarrow> world \<Rightarrow> bool \<times> world" where
  "Write (To d) p w =
     (if d \<in> set (broken w) then (False, w) else (True, w\<lparr>trace := trace w @ [(d, p)]\<rparr>))"
| "Write Discard p w = (True, w)"
| "Write (Multi ws) p w = WriteEach ws p w"
| "WriteEach [] p w = (True, w)"
| "WriteEach (x # xs) p w =
     (case Write x p w of
        (True, w') \<Rightarrow> WriteEach xs p w'
      | (False, w') \<Rightarrow> (False, w'))"

section \<open>The standard library's \<open>log.Logger\<close>\<close>

datatype log_flag = Ldate | Ltime | Lshortfile

record log_Logger =
  out :: writer
  prefix :: string
  flag :: "log_flag set"

definition log_New :: "writer \<Rightarrow> string \<Rightarrow> log_flag set \<Rightarrow> log_Logger" where
  "log_New w p f = \<lparr>out = w, prefix = p, flag = f\<rparr>"

definition nl :: string where
  "nl = [CHR 0x0A]"

text \<open>
  \<open>Output\<close> assembles one line and hands it to the logger's writer in a single
  \<open>Write\<close>, whose error \<open>Println\<close> drops: the prefix, then the stamp \<open>hdr\<close> (date, time
  and call site as the flags ask for them, read from the clock and the call stack), then
  the text, closed by a newline where the text does not end in one.
  \<open>Println\<close> of one string is \<open>Output\<close> of that string and a newline.
\<close>

definition Output :: "log_Logger \<Rightarrow> string \<Rightarrow> string \<Rightarrow> world \<Rightarrow> world" where
  "Output lg hdr s w =
     snd (Write (out lg)
            (prefix lg @ hdr @ (if s = [] then nl else if last s = CHR 0x0A then s else s @ nl))
            w)"

definition Println :: "log_Logger \<Rightarrow> string \<Rightarrow> string \<Rightarrow> world \<Rightarrow> world" where
  "Println lg hdr v w = Output lg hdr (v @ nl) w"

section \<open>logger.go: loggers built from a config\<close>

record Logger =
  I :: log_Logger
  W :: log_Logger
  E :: log_Logger
  ID :: string

text \<open>
  The package's \<open>init\<close> starts the generator goroutine, which stores its channel in
  \<open>logIDService\<close>. A receive from the channel takes the next token; a receive while the
  variable is still nil never returns, which is \<open>None\<close>.
\<close>

definition init :: "world \<Rightarrow> world" where
  "init w = w\<lparr>logIDService := True\<rparr>"

definition recv :: "world \<Rightarrow> (string \<times> world) option" where
  "recv w =
     (if logIDService w then Some (idsource w (issued w), w\<lparr>issued := Suc (issued w)\<rparr>)
      else None)"

definition stdFlags :: "log_flag set" where
  "stdFlags = {Ldate, Ltime, Lshortfile}"

text \<open>
  The methods below are declared on \<open>*Config\<close> and call \<open>GetWriter\<close>; the only config
  type of the sources is \<open>LoggerConfig\<close>, which is what they take here.
\<close>

definition newLogger :: "LoggerConfig \<Rightarrow> string \<Rightarrow> panic + Logger" where
  "newLogger lc pfx =
     (case GetWriter lc Info of
        Inl p \<Rightarrow> Inl p
      | Inr i \<Rightarrow>
          (case GetWriter lc Warn of
             Inl p \<Rightarrow> Inl p
           | Inr wn \<Rightarrow>
               (case GetWriter lc Err of
                  Inl p \<Rightarrow> Inl p
                | Inr e \<Rightarrow>
                    Inr \<lparr>I = log_New i (''INFO'' @ pfx @ '': '') stdFlags,
                         W = log_New wn (''WARN'' @ pfx @ '': '') stdFlags,
                         E = log_New e ('' ERR'' @ pfx @ '': '') stdFlags,
                         ID = []\<rparr>)))"

text \<open>
  Both constructors are given the world and return it, so that what they write and what
  they take from the ID service is part of the result. \<open>None\<close> is a call that never
  returns.
\<close>

definition NewMasterLogger :: "LoggerConfig \<Rightarrow> world \<Rightarrow> (panic + Logger \<times> world) option" where
  "NewMasterLogger lc w =
     Some (case newLogger lc [] of
             Inl p \<Rightarrow> Inl p
           | Inr log \<Rightarrow> Inr (log\<lparr>ID := ''MASTER''\<rparr>, w))"

definition NewSessionLogger ::
  "LoggerConfig \<Rightarrow> string \<Rightarrow> string \<Rightarrow> world \<Rightarrow> (panic + Logger \<times> world) option" where
  "NewSessionLogger lc endpoint hdr w =
     (case recv w of
        None \<Rightarrow> None
      | Some (ident, w1) \<Rightarrow>
          Some (case newLogger lc (''@'' @ endpoint @ '':'' @ ident) of
                  Inl p \<Rightarrow> Inl p
                | Inr log \<Rightarrow>
                    Inr (log\<lparr>ID := ident\<rparr>, Println (I (log\<lparr>ID := ident\<rparr>)) hdr [] w1)))"

section \<open>logger.go: log files and the process-wide initializer\<close>

datatype error = ErrLoggerAlreadyInitalized | OsError string

text \<open>
  The sentinel is declared as \<open>ErrAlreadyInitalized\<close> and returned by
  \<open>InitalizeLogger\<close> under the name \<open>ErrLoggerAlreadyInitalized\<close>; the two names are
  taken to be the one error value the declaration creates.
\<close>

fun Error :: "error \<Rightarrow> string" where
  "Error ErrLoggerAlreadyInitalized = ''Logger system was already initialized.''"
| "Error (OsError m) = m"

text \<open>
  The file system as the calls see it: \<open>MkdirAll\<close> reports an error or nil for a path,
  \<open>Create\<close> an error or the new file, which as a writer is the destination \<open>Sink f\<close>.
  The argument \<open>now\<close> of the functions below is the text of
  \<open>time.Now().UTC().Format("m01-d02-t150405")\<close>.
\<close>

record filesystem =
  MkdirAll :: "string \<Rightarrow> error option"
  Create :: "string \<Rightarrow> error + nat"

definition CreateLogFile :: "filesystem \<Rightarrow> string \<Rightarrow> string \<Rightarrow> error + nat" where
  "CreateLogFile fs now logdir =
     (case MkdirAll fs logdir of
        Some err \<Rightarrow> Inl err
      | None \<Rightarrow>
          (case Create fs (logdir @ ''/'' @ now @ ''.log'') of
             Inl err \<Rightarrow> Inl err
           | Inr f \<Rightarrow> Inr f))"

definition MustCreateLogFile :: "filesystem \<Rightarrow> string \<Rightarrow> string \<Rightarrow> panic + nat" where
  "MustCreateLogFile fs now logdir =
     (case CreateLogFile fs now logdir of
        Inl err \<Rightarrow> Inl (LogFileCreationFailed (Error err))
      | Inr f \<Rightarrow> Inr f)"

definition InitalizeLogger ::
  "filesystem \<Rightarrow> string \<Rightarrow> string \<Rightarrow> world \<Rightarrow> error option \<times> world" where
  "InitalizeLogger fs now logdir g =
     (if loggerInitted g then (Some ErrLoggerAlreadyInitalized, g)
      else if logdir \<noteq> [] then
        (case MkdirAll fs logdir of
           Some err \<Rightarrow> (Some err, g)
         | None \<Rightarrow>
             (case Create fs (logdir @ ''/'' @ now @ ''.log'') of
                Inl err \<Rightarrow> (Some err, g)
              | Inr f \<Rightarrow>
                  (None, g\<lparr>infoLog := Some (MultiWriter [To (Sink f), To Stdout]),
                           warnLog := Some (MultiWriter [To (Sink f), To Stdout]),
                           errorLog := Some (MultiWriter [To (Sink f), To Stderr]),
                           logIDService := True,
                           loggerInitted := True\<rparr>)))
      else (None, g\<lparr>infoLog := Some (To Stdout),
                     warnLog := Some (To Stdout),
                     errorLog := Some (To Stderr),
                     logIDService := True,
                     loggerInitted := True\<rparr>))"

text \<open>
  \<open>MustInitalizeLogger\<close> is the single statement
  \<open>panic("..." + InitalizeLogger(logdir).Error())\<close>: it calls \<open>Error\<close> on whatever
  \<open>InitalizeLogger\<close> returns, which for nil is a run-time panic, and panics with the
  text otherwise. The result type leaves room for a normal return (\<open>Inr ()\<close>).
\<close>

definition MustInitalizeLogger ::
  "filesystem \<Rightarrow> string \<Rightarrow> string \<Rightarrow> world \<Rightarrow> (panic + unit) \<times> world" where
  "MustInitalizeLogger fs now logdir g =
     (case InitalizeLogger fs now logdir g of
        (None, g') \<Rightarrow> (Inl NilDereference, g')
      | (Some err, g') \<Rightarrow> (Inl (LoggerInitFailed (Error err)), g'))"

section \<open>Configs and loggers as objects behind pointers\<close>

text \<open>
  A \<open>*LoggerConfig\<close> and a \<open>*Logger\<close> are addresses into the heap of their type. The
  methods read and update the config their receiver points to; \<open>newLogger\<close> returns the
  address of a new \<open>Logger\<close>. A call through a pointer that holds no object panics.
\<close>

record heap =
  configs :: "LoggerConfig list"
  loggers :: "Logger list"

definition Disable_at :: "nat \<Rightarrow> logLevel \<Rightarrow> heap \<Rightarrow> panic option \<times> heap" where
  "Disable_at lc l h =
     (if lc < length (configs h) then
        (case Disable (configs h ! lc) l of
           (r, c) \<Rightarrow> (r, h\<lparr>configs := (configs h)[lc := c]\<rparr>))
      else (Some NilDereference, h))"

definition Writer_at :: "nat \<Rightarrow> logLevel \<Rightarrow> writer list \<Rightarrow> heap \<Rightarrow> panic option \<times> heap" where
  "Writer_at lc l w h =
     (if lc < length (configs h) then
        (case Writer (configs h ! lc) l w of
           (r, c) \<Rightarrow> (r, h\<lparr>configs := (configs h)[lc := c]\<rparr>))
      else (Some NilDereference, h))"

definition GetWriter_at :: "nat \<Rightarrow> logLevel \<Rightarrow> heap \<Rightarrow> panic + writer" where
  "GetWriter_at lc l h =
     (if lc < length (configs h) then GetWriter (configs h ! lc) l else Inl NilDereference)"

definition newLogger_at :: "nat \<Rightarrow> string \<Rightarrow> heap \<Rightarrow> panic + nat \<times> heap" where
  "newLogger_at lc pfx h =
     (if lc < length (configs h) then
        (case newLogger (configs h ! lc) pfx of
           Inl p \<Rightarrow> Inl p
         | Inr log \<Rightarrow> Inr (length (loggers h), h\<lparr>loggers := loggers h @ [log]\<rparr>))
      else Inl NilDereference)"

text \<open>
  A later change of a config: one call of \<open>Disable\<close> or of \<open>Writer\<close> on it. A run of
  such calls goes on after a call that panicked, as under a caller that recovers.
\<close>

datatype mutation = CallDisable logLevel | CallWriter logLevel "writer list"

fun mutate :: "nat \<Rightarrow> mutation \<Rightarrow> heap \<Rightarrow> heap" where
  "mutate lc (CallDisable l) h = snd (Disable_at lc l h)"
| "mutate lc (CallWriter l w) h = snd (Writer_at lc l w h)"

fun mutate_all :: "nat \<Rightarrow> mutation list \<Rightarrow> heap \<Rightarrow> heap" where
  "mutate_all lc [] h = h"
| "mutate_all lc (m # ms) h = mutate_all lc ms (mutate lc m h)"

section \<open>Concrete inputs\<close>

text \<open>
  A process at its start, before \<open>init\<close> has run: nothing written, every destination
  working, a generator whose \<open>k\<close>-th token is \<open>k + 1\<close> letters \<open>k\<close>. And a file system
  on which every directory and file can be created.
\<close>

fun letters :: "nat \<Rightarrow> string" where
  "letters k = replicate (Suc k) (CHR ''k'')"

definition startWorld :: world where
  "startWorld =
     \<lparr>trace = [], broken = [], logIDService = False, idsource = letters, issued = 0,
      infoLog = None, warnLog = None, errorLog = None, loggerInitted = False\<rparr>"

fun mkdirOk :: "string \<Rightarrow> error option" where
  "mkdirOk p = None"

fun createOk :: "string \<Rightarrow> error + nat" where
  "createOk p = Inr 0"

definition okFs :: filesystem where
  "okFs = \<lparr>MkdirAll = mkdirOk, Create = createOk\<rparr>"

definition startHeap :: heap where
  "startHeap = \<lparr>configs = [zeroConfig], loggers = []\<rparr>"

text \<open>The \<open>ID\<close> field of the logger a constructor call returns, if it returns one.\<close>

definition returned_ID :: "(panic + Logger \<times> world) option \<Rightarrow> string option" where
  "returned_ID r = (case r of Some (Inr (log, w)) \<Rightarrow> Some (ID log) | _ \<Rightarrow> None)"

section \<open>Properties of config.go\<close>

lemma GetWriter_outside_guard:
  "l < 0 \<or> 3 < l \<Longrightarrow> GetWriter lc l = Inr (To Stdout)"
  by (auto simp: GetWriter_def)

text \<open>
  C7. For a valid level with no writer set and not disabled, \<open>GetWriter\<close> returns the
  built-in default of the level: standard output for \<open>Info\<close> and \<open>Warn\<close>, standard error
  for \<open>Err\<close>.
\<close>

theorem GetWriter_default:
  assumes "l \<in> {Info, Warn, Err}"
    and "index3 (Writers lc) l = Inr None"
    and "index3 (Disabled lc) l = Inr False"
  shows "GetWriter lc l = Inr (To (if l = Err then Stderr else Stdout))"
  using assms
  by (auto simp: GetWriter_def level_defs index_slice_def defaultWriters_def)

theorem GetWriter_default_witness:
  "Err \<in> {Info, Warn, Err} \<and> index3 (Writers zeroConfig) Err = Inr None
   \<and> index3 (Disabled zeroConfig) Err = Inr False
   \<and> GetWriter zeroConfig Err = Inr (To Stderr)
   \<and> GetWriter zeroConfig Info = Inr (To Stdout)
   \<and> GetWriter zeroConfig Warn = Inr (To Stdout)"
  using GetWriter_default [of Err zeroConfig] GetWriter_default [of Info zeroConfig]
    GetWriter_default [of Warn zeroConfig]
  by (simp add: zeroConfig_def level_defs)

lemma GetWriter_valid:
  "l \<in> {Info, Warn, Err} \<Longrightarrow> \<exists>w. GetWriter lc l = Inr w"
  by (cases "Disabled lc"; cases "Writers lc")
     (auto simp: GetWriter_def level_defs index_slice_def defaultWriters_def split: option.splits)

text \<open>
  C6. For a valid level and any config, after \<open>Disable\<close> of the level \<open>GetWriter\<close>
  returns the discard sink, whatever writer the config holds for the level; a write to it
  reports success and leaves the world as it was, so no destination receives anything.
\<close>

theorem Disable_then_GetWriter_Discard:
  assumes "l \<in> {Info, Warn, Err}"
  shows "fst (Disable lc l) = None \<and> GetWriter (snd (Disable lc l)) l = Inr Discard
         \<and> Write Discard p w = (True, w)"
  using assms
  by (cases "Disabled lc") (auto simp: Disable_def GetWriter_def level_defs)

theorem Disable_then_GetWriter_Discard_witness:
  "Warn \<in> {Info, Warn, Err}
   \<and> GetWriter (snd (Writer zeroConfig Warn [To (Sink 5)])) Warn = Inr (Multi [To (Sink 5)])
   \<and> fst (Disable (snd (Writer zeroConfig Warn [To (Sink 5)])) Warn) = None
   \<and> GetWriter (snd (Disable (snd (Writer zeroConfig Warn [To (Sink 5)])) Warn)) Warn = Inr Discard
   \<and> Write Discard ''lost'' startWorld = (True, startWorld)"
  using Disable_then_GetWriter_Discard [of Warn "snd (Writer zeroConfig Warn [To (Sink 5)])" "''lost''" startWorld]
  by (simp add: level_defs Writer_def zeroConfig_def GetWriter_def MultiWriter_def)

text \<open>
  C2. The claim is that \<open>GetWriter\<close> on the zero-value config returns standard output for
  every level outside \<open>{0, 1, 2}\<close>. The guard is \<open>l < 0 || l > 3\<close>, so level 3 passes it
  and the read \<open>lc.Disabled[3]\<close> of an array of three panics.
\<close>

theorem GetWriter_level_3_panics:
  "GetWriter zeroConfig 3 = Inl (IndexOutOfRange 3 3)"
  by (simp add: GetWriter_def zeroConfig_def)

lemma mutators_outside_guard:
  "l < 0 \<or> 3 < l \<Longrightarrow>
   Disable lc l = (Some LevelOutOfRange, lc) \<and> Writer lc l ws = (Some LevelOutOfRange, lc)"
  by (auto simp: Disable_def Writer_def)

text \<open>
  C3. The claim is that \<open>Disable\<close> and \<open>Writer\<close> reject every level outside \<open>{0, 1, 2}\<close>
  with the level-out-of-range panic. Level 3 passes their guard \<open>l < 0 || l > 3\<close>; the
  calls end in the run-time panic of the indexed store instead, the config untouched.
\<close>

theorem mutators_level_3:
  "Disable lc 3 = (Some (IndexOutOfRange 3 3), lc)
   \<and> Writer lc 3 ws = (Some (IndexOutOfRange 3 3), lc)"
  by (cases "Disabled lc"; cases "Writers lc") (simp add: Disable_def Writer_def)

text \<open>
  C10, as claimed for every config: after \<open>Writer\<close> with no sinks, \<open>GetWriter\<close> returns
  the empty fan-out. On a config whose level is disabled it returns the discard sink:
  \<open>GetWriter\<close> looks at \<open>Disabled\<close> first.
\<close>

theorem Writer_empty_shadowed_by_Disable:
  "GetWriter (snd (Writer (snd (Disable zeroConfig Info)) Info [])) Info = Inr Discard
   \<and> GetWriter (snd (Writer (snd (Disable zeroConfig Info)) Info [])) Info \<noteq> Inr (MultiWriter [])"
  by (simp add: GetWriter_def Writer_def Disable_def zeroConfig_def level_defs MultiWriter_def)

text \<open>
  C10, amended. For a valid level, \<open>Writer\<close> with no sinks stores a non-nil fan-out over
  no destinations in the level's slot. \<open>GetWriter\<close> then returns that fan-out unless the
  level is disabled, and the discard sink if it is. Either way the sink returned is not
  the level's default, and a write to it reports success and reaches no destination.
\<close>

theorem Writer_empty_silences:
  assumes "l \<in> {Info, Warn, Err}"
  shows "fst (Writer lc l []) = None
         \<and> index3 (Writers (snd (Writer lc l []))) l = Inr (Some (MultiWriter []))
         \<and> MultiWriter [] = Multi []
         \<and> GetWriter (snd (Writer lc l [])) l =
             Inr (if index3 (Disabled lc) l = Inr True then Discard else MultiWriter [])
         \<and> GetWriter (snd (Writer lc l [])) l \<noteq> index_slice defaultWriters l
         \<and> Write (MultiWriter []) p w = (True, w)
         \<and> Write Discard p w = (True, w)"
  using assms
  by (cases "Disabled lc"; cases "Writers lc")
     (auto simp: Writer_def GetWriter_def level_defs MultiWriter_def index_slice_def
        defaultWriters_def)

theorem Writer_empty_silences_witness:
  "Err \<in> {Info, Warn, Err}
   \<and> GetWriter zeroConfig Err = Inr (To Stderr)
   \<and> fst (Writer zeroConfig Err []) = None
   \<and> GetWriter (snd (Writer zeroConfig Err [])) Err = Inr (Multi [])
   \<and> Write (Multi []) ''lost'' startWorld = (True, startWorld)"
  using Writer_empty_silences [of Err zeroConfig "''lost''" startWorld]
  by (simp add: level_defs zeroConfig_def GetWriter_def index_slice_def defaultWriters_def
      MultiWriter_def)

section \<open>Properties of the constructors\<close>

lemma newLogger_returns:
  "\<exists>i wn e. GetWriter lc Info = Inr i \<and> GetWriter lc Warn = Inr wn \<and> GetWriter lc Err = Inr e
     \<and> newLogger lc pfx =
         Inr \<lparr>I = log_New i (''INFO'' @ pfx @ '': '') stdFlags,
              W = log_New wn (''WARN'' @ pfx @ '': '') stdFlags,
              E = log_New e ('' ERR'' @ pfx @ '': '') stdFlags,
              ID = []\<rparr>"
proof -
  obtain i where i: "GetWriter lc Info = Inr i" using GetWriter_valid [of Info lc] by auto
  obtain wn where wn: "GetWriter lc Warn = Inr wn" using GetWriter_valid [of Warn lc] by auto
  obtain e where e: "GetWriter lc Err = Inr e" using GetWriter_valid [of Err lc] by auto
  show ?thesis by (simp add: newLogger_def i wn e)
qed

text \<open>
  C8. For every config, \<open>NewMasterLogger\<close> returns a logger whose \<open>ID\<close> is \<open>MASTER\<close>,
  whose three channels carry the bare level tags and the sinks \<open>GetWriter\<close> resolves, and
  it returns the world as it found it: nothing is written and no token is taken from the
  ID service.
\<close>

theorem NewMasterLogger_MASTER:
  "\<exists>L. NewMasterLogger lc w = Some (Inr (L, w)) \<and> ID L = ''MASTER''
       \<and> prefix (I L) = ''INFO: '' \<and> prefix (W L) = ''WARN: '' \<and> prefix (E L) = '' ERR: ''
       \<and> GetWriter lc Info = Inr (out (I L)) \<and> GetWriter lc Warn = Inr (out (W L))
       \<and> GetWriter lc Err = Inr (out (E L))"
proof -
  obtain i wn e where "GetWriter lc Info = Inr i" "GetWriter lc Warn = Inr wn"
    "GetWriter lc Err = Inr e"
    "newLogger lc [] =
       Inr \<lparr>I = log_New i (''INFO'' @ [] @ '': '') stdFlags,
            W = log_New wn (''WARN'' @ [] @ '': '') stdFlags,
            E = log_New e ('' ERR'' @ [] @ '': '') stdFlags,
            ID = []\<rparr>"
    using newLogger_returns [of lc "[]"] by blast
  then show ?thesis by (simp add: NewMasterLogger_def log_New_def)
qed

theorem NewMasterLogger_MASTER_witness:
  "NewMasterLogger zeroConfig startWorld =
     Some (Inr (\<lparr>I = log_New (To Stdout) ''INFO: '' stdFlags,
                  W = log_New (To Stdout) ''WARN: '' stdFlags,
                  E = log_New (To Stderr) '' ERR: '' stdFlags,
                  ID = ''MASTER''\<rparr>, startWorld))"
  using NewMasterLogger_MASTER [of zeroConfig startWorld]
  by (simp add: NewMasterLogger_def newLogger_def zeroConfig_def GetWriter_def level_defs
      index_slice_def defaultWriters_def)

text \<open>
  C1, as claimed: the identity string of a session logger is \<open>@<endpoint>:<id>\<close>. The
  \<open>ID\<close> field, which is what holds \<open>MASTER\<close> in a master logger, is set to the token
  alone: for endpoint \<open>foo\<close> and token \<open>k\<close> it is \<open>k\<close>.
\<close>

theorem NewSessionLogger_ID_is_token:
  "returned_ID (NewSessionLogger zeroConfig ''foo'' [] (init startWorld)) = Some ''k''
   \<and> returned_ID (NewSessionLogger zeroConfig ''foo'' [] (init startWorld)) \<noteq> Some ''@foo:k''"
  by (simp add: returned_ID_def NewSessionLogger_def recv_def init_def startWorld_def
      newLogger_def GetWriter_def zeroConfig_def level_defs index_slice_def defaultWriters_def)

text \<open>
  C1, amended. With the ID service running, \<open>NewSessionLogger\<close> returns; it takes exactly
  the next token from the service; the logger's \<open>ID\<close> is that token, and the composed
  string \<open>@<endpoint>:<token>\<close> follows the level tag in the prefix of each of the three
  channels, which write to the sinks \<open>GetWriter\<close> resolves; the one write of the
  construction is a line with an empty message, through the \<open>Info\<close> channel.
\<close>

theorem NewSessionLogger_prefix_and_first_line:
  assumes "logIDService w"
  shows "\<exists>i wn er. GetWriter lc Info = Inr i \<and> GetWriter lc Warn = Inr wn
           \<and> GetWriter lc Err = Inr er
           \<and> NewSessionLogger lc e hdr w =
               Some (Inr (\<lparr>I = log_New i (''INFO@'' @ e @ '':'' @ idsource w (issued w) @ '': '') stdFlags,
                            W = log_New wn (''WARN@'' @ e @ '':'' @ idsource w (issued w) @ '': '') stdFlags,
                            E = log_New er ('' ERR@'' @ e @ '':'' @ idsource w (issued w) @ '': '') stdFlags,
                            ID = idsource w (issued w)\<rparr>,
                          snd (Write i (''INFO@'' @ e @ '':'' @ idsource w (issued w) @ '': '' @ hdr @ nl)
                                 (w\<lparr>issued := Suc (issued w)\<rparr>))))"
proof -
  let ?tok = "idsource w (issued w)"
  let ?pfx = "''@'' @ e @ '':'' @ ?tok"
  obtain i wn er where g: "GetWriter lc Info = Inr i" "GetWriter lc Warn = Inr wn"
      "GetWriter lc Err = Inr er"
    and n: "newLogger lc ?pfx =
       Inr \<lparr>I = log_New i (''INFO'' @ ?pfx @ '': '') stdFlags,
            W = log_New wn (''WARN'' @ ?pfx @ '': '') stdFlags,
            E = log_New er ('' ERR'' @ ?pfx @ '': '') stdFlags,
            ID = []\<rparr>"
    using newLogger_returns [of lc ?pfx] by blast
  have r: "recv w = Some (?tok, w\<lparr>issued := Suc (issued w)\<rparr>)"
    using assms by (simp add: recv_def)
  have "NewSessionLogger lc e hdr w =
          Some (Inr (\<lparr>I = log_New i (''INFO@'' @ e @ '':'' @ ?tok @ '': '') stdFlags,
                       W = log_New wn (''WARN@'' @ e @ '':'' @ ?tok @ '': '') stdFlags,
                       E = log_New er ('' ERR@'' @ e @ '':'' @ ?tok @ '': '') stdFlags,
                       ID = ?tok\<rparr>,
                     snd (Write i (''INFO@'' @ e @ '':'' @ ?tok @ '': '' @ hdr @ nl)
                            (w\<lparr>issued := Suc (issued w)\<rparr>))))"
    using n by (simp add: NewSessionLogger_def r log_New_def Println_def Output_def nl_def)
  with g show ?thesis by blast
qed

theorem NewSessionLogger_prefix_and_first_line_witness:
  "logIDService (init startWorld)
   \<and> NewSessionLogger zeroConfig ''foo'' ''2022/01/02 03:04:05 main.go:7: '' (init startWorld) =
       Some (Inr (\<lparr>I = log_New (To Stdout) ''INFO@foo:k: '' stdFlags,
                    W = log_New (To Stdout) ''WARN@foo:k: '' stdFlags,
                    E = log_New (To Stderr) '' ERR@foo:k: '' stdFlags,
                    ID = ''k''\<rparr>,
                  (init startWorld)
                    \<lparr>trace := [(Stdout, ''INFO@foo:k: 2022/01/02 03:04:05 main.go:7: '' @ nl)],
                     issued := 1\<rparr>))"
  using NewSessionLogger_prefix_and_first_line
    [of "init startWorld" zeroConfig "''foo''" "''2022/01/02 03:04:05 main.go:7: ''"]
  by (simp add: init_def startWorld_def zeroConfig_def GetWriter_def level_defs
      index_slice_def defaultWriters_def log_New_def)

section \<open>Loggers and later changes of their config\<close>

lemma mutate_frame:
  "loggers (mutate lc m h) = loggers h"
  by (cases m) (simp_all add: Disable_at_def Writer_at_def split: prod.splits)

lemma mutate_all_frame:
  "loggers (mutate_all lc ms h) = loggers h"
  by (induction ms arbitrary: h) (simp_all add: mutate_frame)

text \<open>
  C9. A logger built from a config keeps its three sinks through every later run of
  \<open>Disable\<close> and \<open>Writer\<close> calls on that config: the logger object is as \<open>newLogger\<close>
  left it, and its sinks are the ones \<open>GetWriter\<close> returned on the config as it was at
  construction.
\<close>

theorem Logger_sinks_fixed:
  assumes "newLogger_at lc pfx h = Inr (a, h1)"
  shows "a < length (loggers (mutate_all lc ms h1))
         \<and> loggers (mutate_all lc ms h1) ! a = loggers h1 ! a
         \<and> GetWriter_at lc Info h = Inr (out (I (loggers (mutate_all lc ms h1) ! a)))
         \<and> GetWriter_at lc Warn h = Inr (out (W (loggers (mutate_all lc ms h1) ! a)))
         \<and> GetWriter_at lc Err h = Inr (out (E (loggers (mutate_all lc ms h1) ! a)))"
proof -
  from assms have lc: "lc < length (configs h)"
    by (simp add: newLogger_at_def split: if_splits)
  obtain i wn e where g: "GetWriter (configs h ! lc) Info = Inr i"
      "GetWriter (configs h ! lc) Warn = Inr wn" "GetWriter (configs h ! lc) Err = Inr e"
    and n: "newLogger (configs h ! lc) pfx =
         Inr \<lparr>I = log_New i (''INFO'' @ pfx @ '': '') stdFlags,
              W = log_New wn (''WARN'' @ pfx @ '': '') stdFlags,
              E = log_New e ('' ERR'' @ pfx @ '': '') stdFlags,
              ID = []\<rparr>"
    using newLogger_returns [of "configs h ! lc" pfx] by blast
  from assms lc n have a: "a = length (loggers h)"
    and h1: "loggers h1 = loggers h @ [\<lparr>I = log_New i (''INFO'' @ pfx @ '': '') stdFlags,
              W = log_New wn (''WARN'' @ pfx @ '': '') stdFlags,
              E = log_New e ('' ERR'' @ pfx @ '': '') stdFlags,
              ID = []\<rparr>]"
    by (auto simp: newLogger_at_def)
  show ?thesis
    using lc g by (simp add: mutate_all_frame a h1 GetWriter_at_def log_New_def)
qed

theorem Logger_sinks_fixed_witness:
  "newLogger_at 0 [] startHeap =
     Inr (0, startHeap\<lparr>loggers := [\<lparr>I = log_New (To Stdout) ''INFO: '' stdFlags,
                                      W = log_New (To Stdout) ''WARN: '' stdFlags,
                                      E = log_New (To Stderr) '' ERR: '' stdFlags,
                                      ID = []\<rparr>]\<rparr>)
   \<and> GetWriter_at 0 Info
        (mutate_all 0 [CallDisable Info, CallWriter Err [To (Sink 1)]]
           (startHeap\<lparr>loggers := [\<lparr>I = log_New (To Stdout) ''INFO: '' stdFlags,
                                    W = log_New (To Stdout) ''WARN: '' stdFlags,
                                    E = log_New (To Stderr) '' ERR: '' stdFlags,
                                    ID = []\<rparr>]\<rparr>)) = Inr Discard
   \<and> GetWriter_at 0 Err
        (mutate_all 0 [CallDisable Info, CallWriter Err [To (Sink 1)]]
           (startHeap\<lparr>loggers := [\<lparr>I = log_New (To Stdout) ''INFO: '' stdFlags,
                                    W = log_New (To Stdout) ''WARN: '' stdFlags,
                                    E = log_New (To Stderr) '' ERR: '' stdFlags,
                                    ID = []\<rparr>]\<rparr>)) = Inr (Multi [To (Sink 1)])
   \<and> out (I (loggers (mutate_all 0 [CallDisable Info, CallWriter Err [To (Sink 1)]]
           (startHeap\<lparr>loggers := [\<lparr>I = log_New (To Stdout) ''INFO: '' stdFlags,
                                    W = log_New (To Stdout) ''WARN: '' stdFlags,
                                    E = log_New (To Stderr) '' ERR: '' stdFlags,
                                    ID = []\<rparr>]\<rparr>)) ! 0)) = To Stdout
   \<and> out (E (loggers (mutate_all 0 [CallDisable Info, CallWriter Err [To (Sink 1)]]
           (startHeap\<lparr>loggers := [\<lparr>I = log_New (To Stdout) ''INFO: '' stdFlags,
                                    W = log_New (To Stdout) ''WARN: '' stdFlags,
                                    E = log_New (To Stderr) '' ERR: '' stdFlags,
                                    ID = []\<rparr>]\<rparr>)) ! 0)) = To Stderr"
proof -
  have built: "newLogger_at 0 [] startHeap =
     Inr (0, startHeap\<lparr>loggers := [\<lparr>I = log_New (To Stdout) ''INFO: '' stdFlags,
                                      W = log_New (To Stdout) ''WARN: '' stdFlags,
                                      E = log_New (To Stderr) '' ERR: '' stdFlags,
                                      ID = []\<rparr>]\<rparr>)"
    by (simp add: newLogger_at_def newLogger_def startHeap_def zeroConfig_def GetWriter_def
        level_defs index_slice_def defaultWriters_def)
  show ?thesis
    using built
      Logger_sinks_fixed [OF built, of "[CallDisable Info, CallWriter Err [To (Sink 1)]]"]
    by (simp add: startHeap_def zeroConfig_def GetWriter_at_def GetWriter_def level_defs
        index_slice_def defaultWriters_def Disable_at_def Writer_at_def Disable_def Writer_def
        MultiWriter_def log_New_def)
qed

section \<open>Properties of the initializer and the log-file helpers\<close>

lemma MustInitalizeLogger_never_returns:
  "\<exists>p. fst (MustInitalizeLogger fs now logdir g) = Inl p"
  by (simp add: MustInitalizeLogger_def split: prod.splits option.splits)

lemma MustCreateLogFile_panics_iff:
  "(\<exists>p. MustCreateLogFile fs now logdir = Inl p) = (\<exists>err. CreateLogFile fs now logdir = Inl err)"
  by (simp add: MustCreateLogFile_def split: sum.splits)

lemma MustCreateLogFile_returns_file:
  "(MustCreateLogFile fs now logdir = Inr f) = (CreateLogFile fs now logdir = Inr f)"
  by (simp add: MustCreateLogFile_def split: sum.splits)

text \<open>
  C4. The claim is that \<open>MustInitalizeLogger\<close> panics exactly when \<open>InitalizeLogger\<close>
  returns an error. At a process start and with the empty \<open>logdir\<close>, \<open>InitalizeLogger\<close>
  returns nil, and \<open>MustInitalizeLogger\<close> panics on calling \<open>Error\<close> of that nil.
\<close>

theorem MustInitalizeLogger_panics_on_success:
  "fst (InitalizeLogger fs now [] startWorld) = None
   \<and> fst (MustInitalizeLogger fs now [] startWorld) = Inl NilDereference"
  by (simp add: MustInitalizeLogger_def InitalizeLogger_def startWorld_def)

text \<open>
  C5. After a call of \<open>InitalizeLogger\<close> that succeeded, any further call returns the
  already-initialized error and leaves the whole state, the three global sinks with it,
  as the first call left it.
\<close>

theorem InitalizeLogger_twice:
  assumes "InitalizeLogger fs now logdir g = (None, g')"
  shows "InitalizeLogger fs' now' logdir' g' = (Some ErrLoggerAlreadyInitalized, g')"
proof -
  have "loggerInitted g'"
    using assms
    by (auto simp: InitalizeLogger_def split: if_splits option.splits sum.splits)
  then show ?thesis by (simp add: InitalizeLogger_def)
qed

theorem InitalizeLogger_twice_witness:
  "InitalizeLogger okFs ''m01-d02-t030405'' ''logs'' startWorld =
     (None, startWorld\<lparr>infoLog := Some (Multi [To (Sink 0), To Stdout]),
                       warnLog := Some (Multi [To (Sink 0), To Stdout]),
                       errorLog := Some (Multi [To (Sink 0), To Stderr]),
                       logIDService := True, loggerInitted := True\<rparr>)
   \<and> InitalizeLogger okFs ''m01-d02-t030406'' []
        (startWorld\<lparr>infoLog := Some (Multi [To (Sink 0), To Stdout]),
                     warnLog := Some (Multi [To (Sink 0), To Stdout]),
                     errorLog := Some (Multi [To (Sink 0), To Stderr]),
                     logIDService := True, loggerInitted := True\<rparr>) =
     (Some ErrLoggerAlreadyInitalized,
      startWorld\<lparr>infoLog := Some (Multi [To (Sink 0), To Stdout]),
                  warnLog := Some (Multi [To (Sink 0), To Stdout]),
                  errorLog := Some (Multi [To (Sink 0), To Stderr]),
                  logIDService := True, loggerInitted := True\<rparr>)"
proof -
  have first: "InitalizeLogger okFs ''m01-d02-t030405'' ''logs'' startWorld =
     (None, startWorld\<lparr>infoLog := Some (Multi [To (Sink 0), To Stdout]),
                       warnLog := Some (Multi [To (Sink 0), To Stdout]),
                       errorLog := Some (Multi [To (Sink 0), To Stderr]),
                       logIDService := True, loggerInitted := True\<rparr>)"
    by (simp add: InitalizeLogger_def okFs_def startWorld_def MultiWriter_def)
  show ?thesis
    using first InitalizeLogger_twice [OF first, of okFs "''m01-d02-t030406''" "[]"]
    by simp
qed

end
